theory Spec2Isabelle
  imports Main
begin

section \<open>The destructuring assigner of \<^verbatim>\<open>include/assign.h\<close>\<close>

text \<open>
  The header is one class template, \<^verbatim>\<open>assign_helper<Vars...>\<close>, with a constrained
  assignment operator template, two concepts and a factory function. Half of what it does
  happens when the program is built (overload resolution, constraint checking,
  instantiation of the operator's body) and half when it runs (the element assignments).
  Both halves are embedded:

  \<^item> C++ types are an abstract type \<open>'ty\<close> and the contents of a memory cell an abstract
    type \<open>'v\<close>;
  \<^item> what the header uses and does not define is a parameter: the assignment and the comma
    operator of the element types (\<open>element_ops\<close>), and what the library and the language
    yield for the expression on the right of the assignment (\<open>source\<close>);
  \<^item> the bound variables are references, so storage is explicit: a memory from addresses
    to cell contents, an object being the list of the cells it occupies;
  \<^item> a rejected build is a value: \<open>Inl\<close> of a \<open>build_error\<close>.
\<close>

subsection \<open>Storage\<close>

type_synonym addr = nat

type_synonym 'v memory = "addr \<Rightarrow> 'v"

text \<open>
  A reference denotes an object: its type and the cells it occupies. An object and its
  sub-objects share cells (a \<^verbatim>\<open>std::pair<int, int>\<close> at cells \<open>[0, 1]\<close> has its member
  \<^verbatim>\<open>second\<close> at cell \<open>[1]\<close>), and two references to one object have the same cells.
\<close>

type_synonym 'ty var_ref = "'ty \<times> addr list"

text \<open>
  The right operand of an element assignment: its value category, its type and the cells
  of the object it denotes. For a prvalue, the cells are those of the object that the
  temporary was copied from.
\<close>

datatype category = Const_Lvalue | Lvalue | Prvalue

type_synonym 'ty operand = "category \<times> 'ty \<times> addr list"

subsection \<open>Parameters: the element types\<close>

text \<open>
  For a variable type \<open>Var\<close> and an element type \<open>Elem\<close>:
  \<^item> \<open>std_assignable_from L Var Elem\<close>: the value of the library concept
    \<^verbatim>\<open>std::assignable_from<Var&, Elem>\<close>;
  \<^item> \<open>assign_valid L Var cat Elem\<close>: whether the expression \<^verbatim>\<open>v = e\<close> is well-formed for
    an lvalue \<^verbatim>\<open>v\<close> of type \<open>Var\<close> and an expression \<^verbatim>\<open>e\<close> of type \<open>Elem\<close> and value
    category \<open>cat\<close>;
  \<^item> \<open>assign_effect L Var cat Elem dst src\<close>: what evaluating that expression does to the
    memory, for a left operand at the cells \<open>dst\<close> and a right operand at the cells
    \<open>src\<close>. Nothing is assumed about it: a user-defined \<^verbatim>\<open>operator=\<close> may write anywhere;
  \<^item> \<open>comma L ts\<close>: what the comma operators do that join the assignment expressions of
    the operand types \<open>ts\<close> (variable type, category and type of the right operand):
    \<open>None\<close> when a comma expression is ill-formed, \<open>Some id\<close> for the built-in comma,
    otherwise the effect of the overloaded comma operators.
\<close>

record ('ty, 'v) element_ops =
  std_assignable_from :: "'ty \<Rightarrow> 'ty \<Rightarrow> bool"
  assign_valid :: "'ty \<Rightarrow> category \<Rightarrow> 'ty \<Rightarrow> bool"
  assign_effect :: "'ty \<Rightarrow> category \<Rightarrow> 'ty \<Rightarrow> addr list \<Rightarrow> addr list \<Rightarrow> 'v memory \<Rightarrow> 'v memory"
  comma :: "('ty \<times> category \<times> 'ty) list \<Rightarrow> ('v memory \<Rightarrow> 'v memory) option"

subsection \<open>Parameters: the expression on the right of the assignment\<close>

datatype validity = Valid | Substitution_Failure | Static_Assertion

text \<open>
  The expression on the right, of some type \<^verbatim>\<open>Tup\<close>, as the library and the language
  present it:
  \<^item> \<open>tuple_size t\<close>: the value of \<^verbatim>\<open>std::tuple_size<Tup>::value\<close>, \<open>None\<close> when that
    expression is ill-formed (a substitution failure);
  \<^item> \<open>tuple_element t i\<close>: the type \<^verbatim>\<open>std::tuple_element_t<i, Tup>\<close>, \<open>None\<close> when
    ill-formed;
  \<^item> \<open>get_in_concept t i\<close>: the expression \<^verbatim>\<open>std::get<i>(t)\<close> as the unevaluated operand
    of a requires-expression, for a non-const lvalue \<^verbatim>\<open>t\<close>: well-formed, a substitution
    failure (no viable overload), or an error outside the immediate context (a static
    assertion of the library), which ends the build;
  \<^item> \<open>std_get t i\<close>: the expression \<^verbatim>\<open>std::get<i>(tup)\<close> in the body of the operator,
    for \<^verbatim>\<open>const Tup& tup\<close>: \<open>None\<close> when ill-formed, otherwise the operand it yields;
  \<^item> \<open>converts_to_assigner t Vars\<close>: the implicit conversion of the expression to
    \<^verbatim>\<open>assign_helper<Vars...>\<close>: \<open>None\<close> when there is none, otherwise the references
    that the resulting assigner holds. There is one when the expression is such an
    assigner, and, with one bound variable, when the expression is a non-const lvalue of
    the variable's type: the constructor of the class is not explicit.
\<close>

record 'ty source =
  tuple_size :: "nat option"
  tuple_element :: "nat \<Rightarrow> 'ty option"
  get_in_concept :: "nat \<Rightarrow> validity"
  std_get :: "nat \<Rightarrow> 'ty operand option"
  converts_to_assigner :: "'ty list \<Rightarrow> 'ty var_ref list option"

subsection \<open>The concepts\<close>

datatype constraint_result = Satisfied | Unsatisfied | Ill_Formed

text \<open>
  \<^verbatim>\<open>
  template<typename T>
  concept tuple_like = requires(T t)
  {
      std::tuple_size<T>::value; // Has tuple size
      std::get<0>(t);           // Supports std::get
  };
  \<close>
  Two simple requirements, checked in this order: each asks that its expression is
  well-formed. Positional access is asked for at index 0 and at no other index.
\<close>

definition tuple_like :: "'ty source \<Rightarrow> constraint_result" where
  "tuple_like t =
     (case tuple_size t of
        None \<Rightarrow> Unsatisfied
      | Some _ \<Rightarrow>
          (case get_in_concept t 0 of
             Valid \<Rightarrow> Satisfied
           | Substitution_Failure \<Rightarrow> Unsatisfied
           | Static_Assertion \<Rightarrow> Ill_Formed))"

text \<open>
  \<^verbatim>\<open>
  template<typename Var, typename TupElem>
  concept assignable_from = std::assignable_from<Var&, TupElem>;
  \<close>
\<close>

definition assignable_from :: "('ty, 'v) element_ops \<Rightarrow> 'ty \<Rightarrow> 'ty \<Rightarrow> bool" where
  "assignable_from L Var TupElem \<longleftrightarrow> std_assignable_from L Var TupElem"

subsection \<open>The assigner\<close>

text \<open>
  \<^verbatim>\<open>std::tuple<Vars&...> refs;\<close> One reference per bound variable, in the order given.
  \<^verbatim>\<open>sizeof...(Vars)\<close> is the length of the list.
\<close>

record 'ty assign_helper =
  refs :: "'ty var_ref list"

text \<open>\<^verbatim>\<open>assign_helper(Vars&... vars) : refs(vars...) {}\<close>\<close>

definition assign_helper_ctor :: "'ty var_ref list \<Rightarrow> 'ty assign_helper" where
  "assign_helper_ctor vars = \<lparr>refs = vars\<rparr>"

text \<open>
  \<^verbatim>\<open>
  template<typename... Vars>
  assign_helper<Vars...> assign(Vars&... vars)
  {
      return assign_helper<Vars...>(vars...);
  }
  \<close>
\<close>

definition assign :: "'ty var_ref list \<Rightarrow> 'ty assign_helper" where
  "assign vars = assign_helper_ctor vars"

text \<open>\<^verbatim>\<open>std::index_sequence_for<Vars...>\<close> is the sequence \<open>0, ..., sizeof...(Vars) - 1\<close>.\<close>

definition index_sequence_for :: "'a list \<Rightarrow> nat list" where
  "index_sequence_for Vars = [0..<length Vars]"

subsection \<open>The constraints of the assignment operator template\<close>

text \<open>
  \<^verbatim>\<open>
  []<std::size_t... Is>(std::index_sequence<Is...>) {
      return (assignable_from<Vars, std::tuple_element_t<Is, Tup>> && ...);
  }(std::index_sequence_for<Vars...>{});
  \<close>
  The call of the generic lambda. The packs \<^verbatim>\<open>Vars\<close> and \<^verbatim>\<open>Is\<close> expand together. The
  result is \<open>None\<close> when the call is ill-formed (some \<^verbatim>\<open>std::tuple_element_t\<close> does not
  exist, or the packs differ in length), otherwise the boolean that the call returns.
\<close>

fun elements_assignable ::
  "('ty, 'v) element_ops \<Rightarrow> 'ty list \<Rightarrow> 'ty source \<Rightarrow> nat list \<Rightarrow> bool option" where
  "elements_assignable L [] t [] = Some True"
| "elements_assignable L (Var # Vars) t (i # Is) =
     (case tuple_element t i of
        None \<Rightarrow> None
      | Some TupElem \<Rightarrow>
          (case elements_assignable L Vars t Is of
             None \<Rightarrow> None
           | Some rest \<Rightarrow> Some (assignable_from L Var TupElem \<and> rest)))"
| "elements_assignable L _ t _ = None"

text \<open>
  \<^verbatim>\<open>
  template<tuple_like Tup>
  requires (sizeof...(Vars) == std::tuple_size_v<Tup>) &&
           requires {
               []<std::size_t... Is>(std::index_sequence<Is...>) { ... }(...);
           }
  \<close>
  The type constraint \<^verbatim>\<open>tuple_like Tup\<close> is checked first, then the conjuncts of the
  requires-clause from left to right. The second conjunct is a requires-expression whose
  body is one simple requirement, the call of the lambda followed by a semicolon: C++
  asks of a simple requirement that the expression is well-formed and does not look at
  its value. So the boolean that the lambda returns is dropped. An error inside the body
  of the lambda is outside the immediate context of the substitution and ends the build
  (\<open>Ill_Formed\<close>), as does a static assertion met while \<^verbatim>\<open>tuple_like\<close> is evaluated.
\<close>

definition operator_assign_requires ::
  "('ty, 'v) element_ops \<Rightarrow> 'ty list \<Rightarrow> 'ty source \<Rightarrow> constraint_result" where
  "operator_assign_requires L Vars tup =
     (case tuple_like tup of
        Unsatisfied \<Rightarrow> Unsatisfied
      | Ill_Formed \<Rightarrow> Ill_Formed
      | Satisfied \<Rightarrow>
          if tuple_size tup \<noteq> Some (length Vars) then Unsatisfied
          else (case elements_assignable L Vars tup (index_sequence_for Vars) of
                  None \<Rightarrow> Ill_Formed
                | Some _ \<Rightarrow> Satisfied))"

subsection \<open>The body of the assignment operator template\<close>

text \<open>
  \<^verbatim>\<open>
  template<typename Tuple, std::size_t... Is>
  void assign_impl(const Tuple& tup, std::index_sequence<Is...>)
  {
      ((std::get<Is>(refs) = std::get<Is>(tup)), ...);
  }
  \<close>
  A fold over the comma operator. Its operands, the assignment expressions, are evaluated
  from left to right; \<open>assign_operands\<close> is their evaluation. The result is \<open>None\<close> when an
  operand is ill-formed (an index outside \<^verbatim>\<open>refs\<close>, no \<^verbatim>\<open>std::get\<close> at that index, or no
  such assignment between the two types): then the function template has no instantiation
  at all, and no state is produced.
\<close>

fun assign_operands ::
  "('ty, 'v) element_ops \<Rightarrow> 'ty var_ref list \<Rightarrow> 'ty source \<Rightarrow> nat list \<Rightarrow>
     'v memory \<Rightarrow> 'v memory option" where
  "assign_operands L rs tup [] s = Some s"
| "assign_operands L rs tup (i # Is) s =
     (if i < length rs then
        (case std_get tup i of
           None \<Rightarrow> None
         | Some (cat, Elem, src) \<Rightarrow>
             (case rs ! i of
                (Var, dst) \<Rightarrow>
                  if assign_valid L Var cat Elem
                  then assign_operands L rs tup Is (assign_effect L Var cat Elem dst src s)
                  else None))
      else None)"

text \<open>The types of the operands of the fold, for the comma operators between them.\<close>

definition operand_types ::
  "'ty var_ref list \<Rightarrow> 'ty source \<Rightarrow> nat list \<Rightarrow> ('ty \<times> category \<times> 'ty) list" where
  "operand_types rs tup Is =
     List.map_filter
       (\<lambda>i. case std_get tup i of
               None \<Rightarrow> None
             | Some (cat, Elem, src) \<Rightarrow> Some (fst (rs ! i), cat, Elem)) Is"

text \<open>
  With fewer than two operands the fold has no comma. Otherwise the comma operators
  apply to the results of the assignments; the operands of a comma are evaluated before
  an overloaded comma operator is called, so that the overloaded commas of a right fold
  all run after the last assignment.
\<close>

definition assign_impl ::
  "('ty, 'v) element_ops \<Rightarrow> 'ty var_ref list \<Rightarrow> 'ty source \<Rightarrow> nat list \<Rightarrow>
     'v memory \<Rightarrow> 'v memory option" where
  "assign_impl L rs tup Is s =
     (case assign_operands L rs tup Is s of
        None \<Rightarrow> None
      | Some s' \<Rightarrow>
          if length Is < 2 then Some s'
          else (case comma L (operand_types rs tup Is) of
                  None \<Rightarrow> None
                | Some after \<Rightarrow> Some (after s')))"

subsection \<open>The implicitly declared assignment operators\<close>

text \<open>
  The class declares no copy or move assignment operator, so the language declares both.
  They assign the member \<^verbatim>\<open>refs\<close>, a \<^verbatim>\<open>std::tuple<Vars&...>\<close>: the assignment of such a
  tuple assigns through each reference, from the object that the other tuple's reference
  denotes, a non-const lvalue of the same type (in index order in the library
  implementations; the standard leaves the order open). The result is \<open>None\<close> when one of
  these assignments is ill-formed: the operator is then deleted, and selecting it ends
  the build.
\<close>

fun memberwise_assign ::
  "('ty, 'v) element_ops \<Rightarrow> 'ty var_ref list \<Rightarrow> 'ty var_ref list \<Rightarrow>
     'v memory \<Rightarrow> 'v memory option" where
  "memberwise_assign L [] [] s = Some s"
| "memberwise_assign L ((Var, dst) # rs) ((Var', src) # os) s =
     (if assign_valid L Var Lvalue Var'
      then memberwise_assign L rs os (assign_effect L Var Lvalue Var' dst src s)
      else None)"
| "memberwise_assign L _ _ s = None"

datatype build_error = No_Viable_Candidate | Hard_Error

definition implicit_assignment ::
  "('ty, 'v) element_ops \<Rightarrow> 'ty assign_helper \<Rightarrow> 'ty source \<Rightarrow> 'v memory \<Rightarrow>
     build_error + ('v memory \<times> 'ty assign_helper)" where
  "implicit_assignment L this tup s =
     (case converts_to_assigner tup (map fst (refs this)) of
        None \<Rightarrow> Inl No_Viable_Candidate
      | Some others \<Rightarrow>
          if map fst others \<noteq> map fst (refs this) then Inl No_Viable_Candidate
          else (case memberwise_assign L (refs this) others s of
                  None \<Rightarrow> Inl Hard_Error
                | Some s' \<Rightarrow> Inr (s', this)))"

subsection \<open>The assignment to an assigner\<close>

text \<open>
  \<^verbatim>\<open>
  assign_helper& operator=(const Tup& tup)
  {
      assign_impl(tup, std::index_sequence_for<Vars...>{});
      return *this;
  }
  \<close>
  The expression \<^verbatim>\<open>assigner = value\<close> has three candidates: the operator template and
  the two implicitly declared operators. The template binds \<^verbatim>\<open>const Tup&\<close> to the value
  itself, which no conversion of the value to the assigner's type can better, so with
  satisfied constraints the template is selected and its body is instantiated; an
  ill-formed body ends the build. An error met while the constraints are checked ends the
  build as well. With unsatisfied constraints the template is no candidate, and an
  implicitly declared operator is selected if the value converts to the assigner's type.
  (A value that is itself an \<^verbatim>\<open>assign_helper\<close> never satisfies the constraints: there is
  no \<^verbatim>\<open>std::get\<close> for it.) Every operator returns \<^verbatim>\<open>*this\<close>.
\<close>

definition operator_assign ::
  "('ty, 'v) element_ops \<Rightarrow> 'ty assign_helper \<Rightarrow> 'ty source \<Rightarrow> 'v memory \<Rightarrow>
     build_error + ('v memory \<times> 'ty assign_helper)" where
  "operator_assign L this tup s =
     (case operator_assign_requires L (map fst (refs this)) tup of
        Unsatisfied \<Rightarrow> implicit_assignment L this tup s
      | Ill_Formed \<Rightarrow> Inl Hard_Error
      | Satisfied \<Rightarrow>
          (case assign_impl L (refs this) tup (index_sequence_for (refs this)) s of
             None \<Rightarrow> Inl Hard_Error
           | Some s' \<Rightarrow> Inr (s', this)))"

subsection \<open>What the claims speak of\<close>

text \<open>
  The effect of the assignment expression of one index,
  \<^verbatim>\<open>std::get<i>(refs) = std::get<i>(tup)\<close>, taken by itself.
\<close>

definition element_assignment ::
  "('ty, 'v) element_ops \<Rightarrow> 'ty var_ref list \<Rightarrow> 'ty source \<Rightarrow> nat \<Rightarrow> 'v memory \<Rightarrow> 'v memory" where
  "element_assignment L rs tup i s =
     (case std_get tup i of
        None \<Rightarrow> s
      | Some (cat, Elem, src) \<Rightarrow>
          (case rs ! i of (Var, dst) \<Rightarrow> assign_effect L Var cat Elem dst src s))"

text \<open>The comma operators between the assignment expressions: whether they are
  well-formed, and what they do.\<close>

definition commas_valid ::
  "('ty, 'v) element_ops \<Rightarrow> 'ty var_ref list \<Rightarrow> 'ty source \<Rightarrow> nat list \<Rightarrow> bool" where
  "commas_valid L rs tup Is \<longleftrightarrow> length Is < 2 \<or> comma L (operand_types rs tup Is) \<noteq> None"

definition commas ::
  "('ty, 'v) element_ops \<Rightarrow> 'ty var_ref list \<Rightarrow> 'ty source \<Rightarrow> nat list \<Rightarrow> 'v memory \<Rightarrow> 'v memory" where
  "commas L rs tup Is =
     (if length Is < 2 then id
      else (case comma L (operand_types rs tup Is) of None \<Rightarrow> id | Some after \<Rightarrow> after))"

text \<open>
  The three preconditions of the specification. The value satisfies the tuple-like
  contract: it reports an element count, and at every index below the count it has an
  element type and a positional accessor, usable both where the constraints are checked
  and in the body. The count is the number of bound variables. Every element, as the
  accessor yields it, is assignable to its bound variable.
\<close>

definition accessible_at :: "'ty source \<Rightarrow> nat \<Rightarrow> bool" where
  "accessible_at tup i \<longleftrightarrow>
     get_in_concept tup i = Valid \<and> std_get tup i \<noteq> None \<and> tuple_element tup i \<noteq> None"

definition tuple_like_contract :: "'ty source \<Rightarrow> bool" where
  "tuple_like_contract tup =
     (case tuple_size tup of None \<Rightarrow> False | Some n \<Rightarrow> list_all (accessible_at tup) [0..<n])"

definition element_assignable ::
  "('ty, 'v) element_ops \<Rightarrow> 'ty var_ref list \<Rightarrow> 'ty source \<Rightarrow> nat \<Rightarrow> bool" where
  "element_assignable L rs tup i =
     (case std_get tup i of
        None \<Rightarrow> False
      | Some (cat, Elem, src) \<Rightarrow> assign_valid L (fst (rs ! i)) cat Elem)"

definition preconditions ::
  "('ty, 'v) element_ops \<Rightarrow> 'ty assign_helper \<Rightarrow> 'ty source \<Rightarrow> bool" where
  "preconditions L this tup \<longleftrightarrow>
     tuple_like_contract tup \<and> tuple_size tup = Some (length (refs this)) \<and>
     list_all (element_assignable L (refs this) tup) [0..<length (refs this)]"

text \<open>
  Conditions on the element types that some claims need. An assignment into a variable
  of type \<open>Var\<close> writes only its left operand. The commas of an assignment are
  well-formed and do nothing, as the built-in comma. An assignment leaves in its left
  operand the value \<open>f\<close> of what its right operand held (\<open>f\<close> is the identity for an
  assignment that preserves the value, a conversion otherwise).
\<close>

definition writes_only_left :: "('ty, 'v) element_ops \<Rightarrow> 'ty \<Rightarrow> bool" where
  "writes_only_left L Var \<longleftrightarrow>
     (\<forall>cat Elem dst src m a. a \<notin> set dst \<longrightarrow> assign_effect L Var cat Elem dst src m a = m a)"

definition commas_do_nothing ::
  "('ty, 'v) element_ops \<Rightarrow> 'ty assign_helper \<Rightarrow> 'ty source \<Rightarrow> bool" where
  "commas_do_nothing L this tup \<longleftrightarrow>
     length (refs this) < 2 \<or>
     comma L (operand_types (refs this) tup (index_sequence_for (refs this))) = Some id"

definition assigns_value ::
  "('ty, 'v) element_ops \<Rightarrow> 'ty var_ref \<Rightarrow> 'ty operand \<Rightarrow> ('v list \<Rightarrow> 'v list) \<Rightarrow> bool" where
  "assigns_value L var opd f =
     (case var of (Var, dst) \<Rightarrow> case opd of (cat, Elem, src) \<Rightarrow>
        \<forall>m. map (assign_effect L Var cat Elem dst src m) dst = f (map m src))"

text \<open>The cells of all bound variables.\<close>

definition bound_cells :: "'ty assign_helper \<Rightarrow> addr set" where
  "bound_cells this = (\<Union>r \<in> set (refs this). set (snd r))"

subsection \<open>Two assignments in sequence\<close>

text \<open>
  \<^verbatim>\<open>
  auto x = assign(a, b);
  x = t1;
  x = t2;
  \<close>
  The same assigner is assigned from a first value and then from a second one.
\<close>

definition assign_twice ::
  "('ty, 'v) element_ops \<Rightarrow> 'ty assign_helper \<Rightarrow> 'ty source \<Rightarrow> 'ty source \<Rightarrow>
     'v memory \<Rightarrow> build_error + ('v memory \<times> 'ty assign_helper)" where
  "assign_twice L this tup1 tup2 s =
     (case operator_assign L this tup1 s of
        Inl e \<Rightarrow> Inl e
      | Inr (s1, _) \<Rightarrow> operator_assign L this tup2 s1)"

subsection \<open>Concrete values of the parameters\<close>

text \<open>
  A \<^verbatim>\<open>std::tuple\<close> of the given elements. An element of object type is accessed as a
  const lvalue, an element of reference type (as in \<^verbatim>\<open>std::tie\<close>) as a non-const lvalue
  of the object referred to. An index out of range meets a static assertion of the
  library. A tuple does not convert to an assigner.
\<close>

definition std_tuple :: "'ty operand list \<Rightarrow> 'ty source" where
  "std_tuple es =
     \<lparr>tuple_size = Some (length es),
      tuple_element = (\<lambda>i. if i < length es then Some (fst (snd (es ! i))) else None),
      get_in_concept = (\<lambda>i. if i < length es then Valid else Static_Assertion),
      std_get = (\<lambda>i. if i < length es then Some (es ! i) else None),
      converts_to_assigner = (\<lambda>_. None)\<rparr>"

text \<open>
  A \<^verbatim>\<open>std::array<T, 0>\<close>. It reports no elements. \<^verbatim>\<open>std::get<0>\<close> of it is declared
  with a return type that does not depend on the index being in range, so that as an
  unevaluated operand the call is well-formed; the static assertion is in the body of
  \<^verbatim>\<open>std::get\<close>, which only a call in evaluated code instantiates.
\<close>

definition std_array_0 :: "'ty source" where
  "std_array_0 =
     \<lparr>tuple_size = Some 0,
      tuple_element = (\<lambda>i. None),
      get_in_concept = (\<lambda>i. Valid),
      std_get = (\<lambda>i. None),
      converts_to_assigner = (\<lambda>_. None)\<rparr>"

text \<open>
  A \<^verbatim>\<open>std::ranges::subrange\<close> of an iterator and a sentinel: two elements, and
  \<^verbatim>\<open>std::get\<close> returns them by value.
\<close>

definition subrange :: "'ty \<times> addr list \<Rightarrow> 'ty \<times> addr list \<Rightarrow> 'ty source" where
  "subrange b e =
     \<lparr>tuple_size = Some 2,
      tuple_element = (\<lambda>i. if i = 0 then Some (fst b) else if i = 1 then Some (fst e) else None),
      get_in_concept = (\<lambda>i. if i < 2 then Valid else Substitution_Failure),
      std_get = (\<lambda>i. if i = 0 then Some (Prvalue, b) else if i = 1 then Some (Prvalue, e)
                      else None),
      converts_to_assigner = (\<lambda>_. None)\<rparr>"

text \<open>
  A non-const lvalue of type \<^verbatim>\<open>std::tuple<T0, T1>\<close>, itself of type \<open>T\<close>, at the cells of
  its two elements. It is a tuple, and it converts to an assigner of one variable of type
  \<open>T\<close>, bound to itself.
\<close>

definition tuple_lvalue :: "'ty \<Rightarrow> 'ty \<times> addr list \<Rightarrow> 'ty \<times> addr list \<Rightarrow> 'ty source" where
  "tuple_lvalue T e0 e1 =
     (std_tuple [(Const_Lvalue, e0), (Const_Lvalue, e1)])
       \<lparr>converts_to_assigner :=
          (\<lambda>Vars. if Vars = [T] then Some [(T, snd e0 @ snd e1)] else None)\<rparr>"

text \<open>Another assigner, as the value on the right: no tuple, and it converts to its own
  type.\<close>

definition assigner_value :: "'ty assign_helper \<Rightarrow> 'ty source" where
  "assigner_value other =
     \<lparr>tuple_size = None,
      tuple_element = (\<lambda>i. None),
      get_in_concept = (\<lambda>i. Substitution_Failure),
      std_get = (\<lambda>i. None),
      converts_to_assigner =
        (\<lambda>Vars. if Vars = map fst (refs other) then Some (refs other) else None)\<rparr>"

text \<open>
  A value that reports two elements and whose positional accessor exists at index 0
  only: for instance an object of a class derived from \<^verbatim>\<open>std::tuple<int>\<close> for which
  \<^verbatim>\<open>std::tuple_size\<close> is specialised to 2 and \<^verbatim>\<open>std::tuple_element\<close> to \<^verbatim>\<open>int\<close>.
  \<^verbatim>\<open>std::get<0>\<close> finds the base class; \<^verbatim>\<open>std::get<1>\<close> is ill-formed.
\<close>

definition index_zero_only :: "'ty \<Rightarrow> addr list \<Rightarrow> 'ty source" where
  "index_zero_only T cells =
     \<lparr>tuple_size = Some 2,
      tuple_element = (\<lambda>i. if i < 2 then Some T else None),
      get_in_concept = (\<lambda>i. if i = 0 then Valid else Static_Assertion),
      std_get = (\<lambda>i. if i = 0 then Some (Const_Lvalue, T, cells) else None),
      converts_to_assigner = (\<lambda>_. None)\<rparr>"

text \<open>
  Element types for evaluating the definitions, with integers in the cells:
  \<^item> \<^verbatim>\<open>int\<close> and \<^verbatim>\<open>short\<close>, one cell each; they assign to each other, and
    \<^verbatim>\<open>short = int\<close> keeps the low 16 bits (a \<^verbatim>\<open>short\<close> of 16 bits, in two's complement);
  \<^item> \<^verbatim>\<open>std::unique_ptr<int>\<close>: assignable from an rvalue of its own type only, so the
    library concept holds for it, and it has no copy assignment;
  \<^item> \<^verbatim>\<open>std::tuple<int, int>\<close>, two cells;
  \<^item> \<^verbatim>\<open>struct Counted { int v; Counted& operator=(const Counted& o)
    { v = o.v; log = log * 10 + v; return *this; } };\<close> with a global \<^verbatim>\<open>int log\<close> at
    cell 100: its assignment has a side effect;
  \<^item> an iterator type \<^verbatim>\<open>It\<close> (a pointer, say), and
    \<^verbatim>\<open>struct Sink { Sink& operator=(It&&); };\<close>, assignable from an rvalue iterator and
    from nothing else.
  \<^item> \<^verbatim>\<open>struct No_comma { int v; }; void operator,(No_comma&, No_comma&) = delete;\<close>,
    whose assignment expressions cannot be joined by a comma;
  \<^item> \<^verbatim>\<open>struct Loud_comma { int v; }; void operator,(Loud_comma&, Loud_comma&)
    { ++log; }\<close>, whose comma has a side effect.
  No other type overloads the comma operator.
\<close>

datatype cpp_type =
  Int_t | Short_t | Unique_ptr_t | Tuple_int_int_t | Counted_t | Iterator_t | Sink_t |
  No_comma_t | Loud_comma_t

definition store_values :: "addr list \<Rightarrow> 'v list \<Rightarrow> 'v memory \<Rightarrow> 'v memory" where
  "store_values dst vals m = fold (\<lambda>av m'. m'(fst av := snd av)) (zip dst vals) m"

definition arithmetic :: "cpp_type \<Rightarrow> bool" where
  "arithmetic T \<longleftrightarrow> T = Int_t \<or> T = Short_t"

definition cpp :: "(cpp_type, int) element_ops" where
  "cpp =
     \<lparr>std_assignable_from = (\<lambda>Var Elem.
        (arithmetic Var \<and> arithmetic Elem) \<or> (Var = Elem \<and> Var \<noteq> Sink_t)),
      assign_valid = (\<lambda>Var cat Elem.
        (arithmetic Var \<and> arithmetic Elem) \<or>
        (Var = Elem \<and>
           Var \<in> {Tuple_int_int_t, Counted_t, Iterator_t, No_comma_t, Loud_comma_t}) \<or>
        (Var = Unique_ptr_t \<and> Elem = Unique_ptr_t \<and> cat = Prvalue) \<or>
        (Var = Sink_t \<and> Elem = Iterator_t \<and> cat = Prvalue)),
      assign_effect = (\<lambda>Var cat Elem dst src m.
        let vals = (if Var = Short_t \<and> Elem = Int_t
                    then map (\<lambda>x. (x + 32768) mod 65536 - 32768) (map m src)
                    else map m src);
            m' = store_values dst vals m
        in if Var = Counted_t then m'(100 := m' 100 * 10 + (case vals of [] \<Rightarrow> 0 | v # _ \<Rightarrow> v))
           else m'),
      comma = (\<lambda>ts.
        if No_comma_t \<in> fst ` set ts then None
        else if Loud_comma_t \<in> fst ` set ts then Some (\<lambda>m. m(100 := m 100 + 1))
        else Some id)\<rparr>"

text \<open>What a caller observes after the assignment: the contents of the given cells, or
  the build error.\<close>

definition final_values ::
  "addr list \<Rightarrow> build_error + ('v memory \<times> 'ty assign_helper) \<Rightarrow> build_error + 'v list" where
  "final_values ps res = (case res of Inl e \<Rightarrow> Inl e | Inr (s, _) \<Rightarrow> Inr (map s ps))"

section \<open>Properties of the embedding\<close>

subsection \<open>The operands of the fold\<close>

text \<open>The evaluation of the operands is the composition of the element assignments, in the
  order of the index sequence.\<close>

lemma assign_operands_fold:
  "assign_operands L rs tup Is s = Some s' \<Longrightarrow> s' = fold (element_assignment L rs tup) Is s"
  by (induction Is arbitrary: s)
     (auto simp: element_assignment_def split: if_splits option.splits prod.splits)

lemma assign_operands_valid:
  "assign_operands L rs tup Is s = Some s' \<Longrightarrow> i \<in> set Is \<Longrightarrow>
   i < length rs \<and> element_assignable L rs tup i"
proof (induction Is arbitrary: s)
  case Nil
  then show ?case by simp
next
  case (Cons j Is)
  from Cons.prems(1) obtain cat Elem src Var dst where
    j: "j < length rs" and opd: "std_get tup j = Some (cat, Elem, src)" and
    var: "rs ! j = (Var, dst)" and valid: "assign_valid L Var cat Elem" and
    rest: "assign_operands L rs tup Is (assign_effect L Var cat Elem dst src s) = Some s'"
    by (auto split: if_splits option.splits prod.splits)
  show ?case
  proof (cases "i = j")
    case True
    with j opd var valid show ?thesis by (simp add: element_assignable_def)
  next
    case False
    with Cons.prems(2) have "i \<in> set Is" by simp
    from Cons.IH [OF rest this] show ?thesis .
  qed
qed

lemma assign_operands_succeeds:
  "\<forall>i\<in>set Is. i < length rs \<and> element_assignable L rs tup i \<Longrightarrow>
   assign_operands L rs tup Is s = Some (fold (element_assignment L rs tup) Is s)"
  by (induction Is arbitrary: s)
     (auto simp: element_assignable_def element_assignment_def split: option.splits prod.splits)

text \<open>Cells outside the variables that the sequence names are left alone, when the
  assignments into these variables write only their left operand.\<close>

lemma fold_frame:
  assumes "\<forall>i\<in>set Is. writes_only_left L (fst (rs ! i))"
    and "\<forall>i\<in>set Is. a \<notin> set (snd (rs ! i))"
  shows "fold (element_assignment L rs tup) Is m a = m a"
  using assms
proof (induction Is arbitrary: m)
  case Nil
  then show ?case by simp
next
  case (Cons i Is)
  have "element_assignment L rs tup i m a = m a"
  proof (cases "std_get tup i")
    case None
    then show ?thesis by (simp add: element_assignment_def)
  next
    case (Some opd)
    obtain cat Elem src where opd: "opd = (cat, Elem, src)" by (cases opd) auto
    obtain Var dst where r: "rs ! i = (Var, dst)" by (cases "rs ! i") auto
    from Cons.prems r have "writes_only_left L Var" and "a \<notin> set dst" by auto
    then have "assign_effect L Var cat Elem dst src m a = m a"
      unfolding writes_only_left_def by blast
    with Some opd r show ?thesis by (simp add: element_assignment_def)
  qed
  moreover from Cons have
    "fold (element_assignment L rs tup) Is (element_assignment L rs tup i m) a =
     element_assignment L rs tup i m a"
    by simp
  ultimately show ?case by simp
qed

text \<open>
  The contents of bound variable \<open>i\<close> after all assignments: the run is cut into the
  assignments before index \<open>i\<close>, which must not write the cells of element \<open>i\<close>, the
  assignment of index \<open>i\<close>, and the assignments after it, which must not write the cells
  of variable \<open>i\<close>.
\<close>

lemma fold_value_at:
  assumes i: "i < n"
    and var: "rs ! i = (Var, dst)" and opd: "std_get tup i = Some (cat, Elem, src)"
    and val: "assigns_value L (Var, dst) (cat, Elem, src) f"
    and wol: "\<forall>j<n. j \<noteq> i \<longrightarrow> writes_only_left L (fst (rs ! j))"
    and earlier: "\<forall>j<i. set (snd (rs ! j)) \<inter> set src = {}"
    and later: "\<forall>j. i < j \<and> j < n \<longrightarrow> set (snd (rs ! j)) \<inter> set dst = {}"
  shows "map (fold (element_assignment L rs tup) [0..<n] m) dst = f (map m src)"
proof -
  have split: "[0..<n] = [0..<i] @ i # [Suc i..<n]"
  proof -
    have "[0..<i + (n - i)] = [0..<i] @ [i..<i + (n - i)]"
      by (rule upt_add_eq_append) simp
    moreover have "[i..<n] = i # [Suc i..<n]"
      using i by (rule upt_conv_Cons)
    ultimately show ?thesis using i by simp
  qed
  define m1 where "m1 = fold (element_assignment L rs tup) [0..<i] m"
  define m2 where "m2 = element_assignment L rs tup i m1"
  have whole: "fold (element_assignment L rs tup) [0..<n] m =
               fold (element_assignment L rs tup) [Suc i..<n] m2"
    unfolding split m1_def m2_def by simp
  have "m1 a = m a" if "a \<in> set src" for a
    unfolding m1_def
  proof (rule fold_frame)
    show "\<forall>j\<in>set [0..<i]. writes_only_left L (fst (rs ! j))"
      using wol i by auto
    show "\<forall>j\<in>set [0..<i]. a \<notin> set (snd (rs ! j))"
      using earlier that by auto
  qed
  then have before: "map m1 src = map m src"
    by simp
  have "m2 = assign_effect L Var cat Elem dst src m1"
    unfolding m2_def by (simp add: element_assignment_def var opd)
  with val have at: "map m2 dst = f (map m1 src)"
    by (simp add: assigns_value_def)
  have "fold (element_assignment L rs tup) [Suc i..<n] m2 a = m2 a" if "a \<in> set dst" for a
  proof (rule fold_frame)
    show "\<forall>j\<in>set [Suc i..<n]. writes_only_left L (fst (rs ! j))"
      using wol by auto
    show "\<forall>j\<in>set [Suc i..<n]. a \<notin> set (snd (rs ! j))"
      using later that by (auto simp: Suc_le_eq)
  qed
  then have "map (fold (element_assignment L rs tup) [Suc i..<n] m2) dst = map m2 dst"
    by simp
  with whole at before show ?thesis by simp
qed

subsection \<open>The constraints\<close>

lemma elements_assignable_defined:
  "length Vars = length Is \<Longrightarrow> \<forall>i\<in>set Is. tuple_element tup i \<noteq> None \<Longrightarrow>
   elements_assignable L Vars tup Is \<noteq> None"
  by (induction Vars Is rule: list_induct2) (auto split: option.splits)


lemma preconditions_unfold:
  "preconditions L this tup \<longleftrightarrow>
     tuple_size tup = Some (length (refs this)) \<and>
     (\<forall>i<length (refs this). accessible_at tup i \<and> element_assignable L (refs this) tup i)"
  by (auto simp: preconditions_def tuple_like_contract_def list_all_iff)

lemma preconditions_requires:
  assumes "preconditions L this tup" and "get_in_concept tup 0 = Valid"
  shows "operator_assign_requires L (map fst (refs this)) tup = Satisfied"
proof -
  from assms(1) have size: "tuple_size tup = Some (length (refs this))"
    and acc: "\<forall>i<length (refs this). tuple_element tup i \<noteq> None"
    by (auto simp: preconditions_unfold accessible_at_def)
  from acc have "elements_assignable L (map fst (refs this)) tup [0..<length (refs this)] \<noteq> None"
    by (intro elements_assignable_defined) auto
  with size assms(2) show ?thesis
    by (auto simp: operator_assign_requires_def tuple_like_def index_sequence_for_def)
qed

subsection \<open>The operator template\<close>

text \<open>
  When the preconditions hold, positional access at index 0 is well-formed where the
  constraints are checked (which the preconditions say themselves when there is a bound
  variable), and the commas are well-formed, the template is selected and runs: all
  element assignments in index order, then the commas.
\<close>

lemma operator_assign_runs:
  assumes pre: "preconditions L this tup" and zero: "get_in_concept tup 0 = Valid"
    and cv: "commas_valid L (refs this) tup (index_sequence_for (refs this))"
  shows "operator_assign L this tup s =
           Inr (commas L (refs this) tup (index_sequence_for (refs this))
                  (fold (element_assignment L (refs this) tup)
                     (index_sequence_for (refs this)) s), this)"
proof -
  from pre have "\<forall>i\<in>set [0..<length (refs this)].
      i < length (refs this) \<and> element_assignable L (refs this) tup i"
    by (auto simp: preconditions_unfold)
  from assign_operands_succeeds [OF this]
  have ops: "assign_operands L (refs this) tup [0..<length (refs this)] s =
      Some (fold (element_assignment L (refs this) tup) [0..<length (refs this)] s)" .
  from cv ops show ?thesis
    by (auto simp: operator_assign_def preconditions_requires [OF pre zero] assign_impl_def
        index_sequence_for_def commas_def commas_valid_def split: option.splits)
qed

lemma preconditions_zero:
  "preconditions L this tup \<Longrightarrow> 0 < length (refs this) \<Longrightarrow> get_in_concept tup 0 = Valid"
  by (auto simp: preconditions_unfold accessible_at_def)

text \<open>What an accepted assignment through the template has passed.\<close>

lemma template_accepted:
  assumes req: "operator_assign_requires L (map fst (refs this)) tup = Satisfied"
    and run: "operator_assign L this tup s = Inr (s', r)"
  shows "r = this"
    and "\<forall>i<length (refs this). element_assignable L (refs this) tup i"
    and "commas_valid L (refs this) tup (index_sequence_for (refs this))"
    and "s' = commas L (refs this) tup (index_sequence_for (refs this))
                (fold (element_assignment L (refs this) tup)
                   (index_sequence_for (refs this)) s)"
proof -
  from req run have r: "r = this" and
    impl: "assign_impl L (refs this) tup [0..<length (refs this)] s = Some s'"
    by (auto simp: operator_assign_def index_sequence_for_def split: option.splits)
  from impl obtain s1 where
    ops: "assign_operands L (refs this) tup [0..<length (refs this)] s = Some s1"
    by (auto simp: assign_impl_def split: option.splits)
  from impl ops have
    cv: "commas_valid L (refs this) tup [0..<length (refs this)]" and
    s': "s' = commas L (refs this) tup [0..<length (refs this)] s1"
    by (auto simp: assign_impl_def commas_valid_def commas_def split: option.splits if_splits)
  show "r = this" by (rule r)
  show "\<forall>i<length (refs this). element_assignable L (refs this) tup i"
    using assign_operands_valid [OF ops] by simp
  show "commas_valid L (refs this) tup (index_sequence_for (refs this))"
    using cv by (simp add: index_sequence_for_def)
  show "s' = commas L (refs this) tup (index_sequence_for (refs this))
                (fold (element_assignment L (refs this) tup)
                   (index_sequence_for (refs this)) s)"
    using s' assign_operands_fold [OF ops] by (simp add: index_sequence_for_def)
qed

subsection \<open>The implicitly declared operators\<close>

lemma memberwise_assign_frame:
  "memberwise_assign L rs os s = Some s' \<Longrightarrow> \<forall>r\<in>set rs. writes_only_left L (fst r) \<Longrightarrow>
   \<forall>r\<in>set rs. a \<notin> set (snd r) \<Longrightarrow> s' a = s a"
proof (induction L rs os s rule: memberwise_assign.induct)
  case (2 L Var dst rs Var' src os s)
  from "2.prems" have valid: "assign_valid L Var Lvalue Var'" and
    rest: "memberwise_assign L rs os (assign_effect L Var Lvalue Var' dst src s) = Some s'"
    by (auto split: if_splits)
  from "2.prems" have "assign_effect L Var Lvalue Var' dst src s a = s a"
    by (auto simp: writes_only_left_def)
  moreover from "2.IH" [OF valid rest] "2.prems"
  have "s' a = assign_effect L Var Lvalue Var' dst src s a"
    by simp
  ultimately show ?case by simp
qed simp_all

lemma memberwise_assign_Nil:
  "memberwise_assign L [] os s = Some s' \<Longrightarrow> s' = s"
  by (cases os) simp_all

lemma operator_assign_returns_this:
  "operator_assign L this tup s = Inr (s', r) \<Longrightarrow> r = this"
  by (auto simp: operator_assign_def implicit_assignment_def
           split: constraint_result.splits option.splits if_splits)

text \<open>An accepted assignment, through whichever operator, changes no cell outside the
  bound variables, under the two conditions on the element types.\<close>

lemma operator_assign_frame:
  assumes run: "operator_assign L this tup s = Inr (s', r)"
    and wol: "\<forall>Var\<in>fst ` set (refs this). writes_only_left L Var"
    and cdn: "commas_do_nothing L this tup"
    and a: "a \<notin> bound_cells this"
  shows "s' a = s a"
proof (cases "operator_assign_requires L (map fst (refs this)) tup")
  case Satisfied
  have "fold (element_assignment L (refs this) tup) [0..<length (refs this)] s a = s a"
  proof (rule fold_frame)
    show "\<forall>i\<in>set [0..<length (refs this)]. writes_only_left L (fst (refs this ! i))"
      using wol by auto
    show "\<forall>i\<in>set [0..<length (refs this)]. a \<notin> set (snd (refs this ! i))"
      using a by (auto simp: bound_cells_def)
  qed
  moreover from cdn have "commas L (refs this) tup (index_sequence_for (refs this)) = id"
    by (auto simp: commas_do_nothing_def commas_def index_sequence_for_def)
  ultimately show ?thesis
    using template_accepted(4) [OF Satisfied run] by (simp add: index_sequence_for_def)
next
  case Unsatisfied
  with run obtain others where
    "memberwise_assign L (refs this) others s = Some s'"
    by (auto simp: operator_assign_def implicit_assignment_def split: option.splits if_splits)
  from memberwise_assign_frame [OF this] wol a show ?thesis
    by (auto simp: bound_cells_def)
next
  case Ill_Formed
  with run show ?thesis by (simp add: operator_assign_def)
qed

text \<open>An assignment that the template does not complete is a hard error or is left to
  the implicitly declared operators.\<close>

lemma operator_assign_not_template:
  assumes "operator_assign_requires L (map fst (refs this)) tup \<noteq> Satisfied"
  shows "operator_assign L this tup s = Inl Hard_Error \<or>
         operator_assign L this tup s = implicit_assignment L this tup s"
  using assms
  by (cases "operator_assign_requires L (map fst (refs this)) tup")
     (simp_all add: operator_assign_def)


subsection \<open>The concrete element types\<close>

lemma store_values_other:
  "a \<notin> set dst \<Longrightarrow> store_values dst vals m a = m a"
proof -
  have "a \<notin> fst ` set avs \<Longrightarrow> fold (\<lambda>av m'. m'(fst av := snd av)) avs m a = m a" for avs
    by (induction avs arbitrary: m) auto
  moreover have "fst ` set (zip dst vals) \<subseteq> set dst"
    by (auto dest: set_zip_leftD)
  ultimately show "a \<notin> set dst \<Longrightarrow> store_values dst vals m a = m a"
    unfolding store_values_def by blast
qed

lemma cpp_writes_only_left:
  "Var \<noteq> Counted_t \<Longrightarrow> writes_only_left cpp Var"
  by (simp add: writes_only_left_def cpp_def Let_def store_values_other)

lemma commas_do_nothing_valid:
  "commas_do_nothing L this tup \<Longrightarrow>
   commas_valid L (refs this) tup (index_sequence_for (refs this)) \<and>
   commas L (refs this) tup (index_sequence_for (refs this)) = id"
  by (auto simp: commas_do_nothing_def commas_valid_def commas_def index_sequence_for_def)

text \<open>The equations that evaluate the definitions at a concrete input.\<close>

lemmas run_simps =
  operator_assign_def operator_assign_requires_def tuple_like_def std_tuple_def assign_def
  assign_helper_ctor_def index_sequence_for_def cpp_def assignable_from_def final_values_def
  assign_twice_def index_zero_only_def assign_impl_def operand_types_def implicit_assignment_def
  std_array_0_def subrange_def tuple_lvalue_def assigner_value_def store_values_def
  arithmetic_def upt_rec

lemmas pre_simps =
  preconditions_def tuple_like_contract_def accessible_at_def element_assignable_def
  commas_do_nothing_def commas_valid_def commas_def element_assignment_def assigns_value_def
  bound_cells_def

section \<open>The claims\<close>

subsection \<open>C1: positional correctness\<close>

text \<open>
  As stated, the claim fails in four ways, each with element types that are assignable
  to the bound variables.
  \<^item> In \<^verbatim>\<open>assign(a, a) = std::tuple<int, int>(1, 2)\<close> bound variable 0 is \<^verbatim>\<open>a\<close>, and it
    ends with 2, the value of element 1: the second assignment overwrote the first.
  \<^item> In \<^verbatim>\<open>short a; assign(a) = std::tuple<int>(70000)\<close> the variable ends with 4464: the
    assignment converted the value.
  \<^item> In \<^verbatim>\<open>assign(log, c) = std::tuple<int, Counted>(5, Counted(1))\<close> bound variable 0 is
    the log, and it ends with 51: the assignment of index 1 wrote it as a side effect.
  \<^item> For two variables of type \<^verbatim>\<open>No_comma\<close> all preconditions hold and the build is
    rejected: the comma between the two assignments is deleted.
\<close>

theorem duplicate_binding_counterexample:
  "final_values [0, 10]
     (operator_assign cpp (assign [(Int_t, [0]), (Int_t, [0])])
        (std_tuple [(Const_Lvalue, Int_t, [10]), (Const_Lvalue, Int_t, [11])])
        ((\<lambda>_. 0)(10 := 1, 11 := 2))) = Inr [2, 1] \<and>
   final_values [0, 10]
     (operator_assign cpp (assign [(Short_t, [0])]) (std_tuple [(Const_Lvalue, Int_t, [10])])
        ((\<lambda>_. 0)(10 := 70000))) = Inr [4464, 70000] \<and>
   final_values [100, 10]
     (operator_assign cpp (assign [(Int_t, [100]), (Counted_t, [1])])
        (std_tuple [(Const_Lvalue, Int_t, [10]), (Const_Lvalue, Counted_t, [11])])
        ((\<lambda>_. 0)(10 := 5, 11 := 1))) = Inr [51, 5] \<and>
   preconditions cpp (assign [(No_comma_t, [0]), (No_comma_t, [1])])
     (std_tuple [(Const_Lvalue, No_comma_t, [10]), (Const_Lvalue, No_comma_t, [11])]) \<and>
   operator_assign cpp (assign [(No_comma_t, [0]), (No_comma_t, [1])])
     (std_tuple [(Const_Lvalue, No_comma_t, [10]), (Const_Lvalue, No_comma_t, [11])])
     ((\<lambda>_. 0)(10 := 1, 11 := 2)) = Inl Hard_Error"
  by (simp add: run_simps pre_simps)

text \<open>
  Claim C1, as amended. For every arity of at least 1 and every value that meets the
  preconditions, when the commas between the assignments are the built-in ones, the
  assignment is accepted, and what it does is exactly one element assignment per index,
  in index order, index \<open>i\<close> assigning element \<open>i\<close> of the value to bound variable \<open>i\<close>:
  the pairing is by position. Afterwards bound variable \<open>i\<close> holds what the assignment
  between the two types makes of the value that element \<open>i\<close> held before the call (\<open>f\<close>
  of it; that value itself when the assignment preserves values), provided that the
  assignments into the other bound variables write only their left operand, that no
  earlier bound variable shares a cell with element \<open>i\<close>, and that no later bound
  variable shares a cell with variable \<open>i\<close>.
\<close>

theorem positional_assignment:
  assumes pre: "preconditions L this tup" and cdn: "commas_do_nothing L this tup"
    and i: "i < length (refs this)"
    and var: "refs this ! i = (Var, dst)" and opd: "std_get tup i = Some (cat, Elem, src)"
  shows "\<exists>s'. operator_assign L this tup s = Inr (s', this) \<and>
           s' = fold (element_assignment L (refs this) tup) [0..<length (refs this)] s \<and>
           (assigns_value L (Var, dst) (cat, Elem, src) f \<and>
            (\<forall>j<length (refs this). j \<noteq> i \<longrightarrow> writes_only_left L (fst (refs this ! j))) \<and>
            (\<forall>j<i. set (snd (refs this ! j)) \<inter> set src = {}) \<and>
            (\<forall>j. i < j \<and> j < length (refs this) \<longrightarrow> set (snd (refs this ! j)) \<inter> set dst = {})
            \<longrightarrow> map s' dst = f (map s src))"
proof -
  let ?s' = "fold (element_assignment L (refs this) tup) [0..<length (refs this)] s"
  from pre i have zero: "get_in_concept tup 0 = Valid"
    by (intro preconditions_zero) auto
  from commas_do_nothing_valid [OF cdn] operator_assign_runs [OF pre zero]
  have run: "operator_assign L this tup s = Inr (?s', this)"
    by (simp add: index_sequence_for_def)
  have "assigns_value L (Var, dst) (cat, Elem, src) f \<and>
        (\<forall>j<length (refs this). j \<noteq> i \<longrightarrow> writes_only_left L (fst (refs this ! j))) \<and>
        (\<forall>j<i. set (snd (refs this ! j)) \<inter> set src = {}) \<and>
        (\<forall>j. i < j \<and> j < length (refs this) \<longrightarrow> set (snd (refs this ! j)) \<inter> set dst = {})
        \<longrightarrow> map ?s' dst = f (map s src)"
  proof (intro impI, elim conjE)
    assume "assigns_value L (Var, dst) (cat, Elem, src) f"
      and "\<forall>j<length (refs this). j \<noteq> i \<longrightarrow> writes_only_left L (fst (refs this ! j))"
      and "\<forall>j<i. set (snd (refs this ! j)) \<inter> set src = {}"
      and "\<forall>j. i < j \<and> j < length (refs this) \<longrightarrow> set (snd (refs this ! j)) \<inter> set dst = {}"
    then show "map ?s' dst = f (map s src)"
      by (rule fold_value_at [OF i var opd])
  qed
  with run show ?thesis
    by (intro exI [of _ ?s'] conjI refl)
qed

text \<open>An \<^verbatim>\<open>int\<close> and a \<^verbatim>\<open>short\<close> variable and a \<^verbatim>\<open>std::tuple<int, short>\<close> holding
  \<open>(42, 7)\<close>, at index 1.\<close>

theorem positional_assignment_witness:
  "\<exists>s'. operator_assign cpp (assign [(Int_t, [0]), (Short_t, [1])])
        (std_tuple [(Const_Lvalue, Int_t, [10]), (Const_Lvalue, Short_t, [11])])
        ((\<lambda>_. 0)(10 := 42, 11 := 7)) = Inr (s', assign [(Int_t, [0]), (Short_t, [1])]) \<and>
      map s' [1] = [7]"
proof -
  let ?h = "assign [(Int_t, [0]), (Short_t, [1])]"
  let ?tup = "std_tuple [(Const_Lvalue, Int_t, [10]), (Const_Lvalue, Short_t, [11])]"
  let ?s = "(\<lambda>_::addr. 0::int)(10 := 42, 11 := 7)"
  have pre: "preconditions cpp ?h ?tup"
    by (simp add: run_simps pre_simps)
  have cdn: "commas_do_nothing cpp ?h ?tup"
    by (simp add: run_simps pre_simps)
  have i: "1 < length (refs ?h)"
    by (simp add: assign_def assign_helper_ctor_def)
  have var: "refs ?h ! 1 = (Short_t, [1])"
    by (simp add: assign_def assign_helper_ctor_def)
  have opd: "std_get ?tup 1 = Some (Const_Lvalue, Short_t, [11])"
    by (simp add: std_tuple_def)
  have val: "assigns_value cpp (Short_t, [1]) (Const_Lvalue, Short_t, [11]) id"
    by (simp add: assigns_value_def cpp_def store_values_def)
  have others: "\<forall>j<length (refs ?h). j \<noteq> 1 \<longrightarrow> writes_only_left cpp (fst (refs ?h ! j))"
  proof (intro allI impI)
    fix j assume "j < length (refs ?h)" and "j \<noteq> 1"
    then have "refs ?h ! j = (Int_t, [0])"
      by (simp add: assign_def assign_helper_ctor_def less_Suc_eq)
    then show "writes_only_left cpp (fst (refs ?h ! j))"
      by (simp add: cpp_writes_only_left)
  qed
  have earlier: "\<forall>j<1. set (snd (refs ?h ! j)) \<inter> set [11] = {}"
    by (simp add: assign_def assign_helper_ctor_def)
  have later: "\<forall>j. 1 < j \<and> j < length (refs ?h) \<longrightarrow> set (snd (refs ?h ! j)) \<inter> set [1] = {}"
    by (simp add: assign_def assign_helper_ctor_def)
  from positional_assignment [OF pre cdn i var opd, of ?s id]
  obtain s' where run: "operator_assign cpp ?h ?tup ?s = Inr (s', ?h)" and
    "assigns_value cpp (Short_t, [1]) (Const_Lvalue, Short_t, [11]) id \<and>
     (\<forall>j<length (refs ?h). j \<noteq> 1 \<longrightarrow> writes_only_left cpp (fst (refs ?h ! j))) \<and>
     (\<forall>j<1. set (snd (refs ?h ! j)) \<inter> set [11] = {}) \<and>
     (\<forall>j. 1 < j \<and> j < length (refs ?h) \<longrightarrow> set (snd (refs ?h ! j)) \<inter> set [1] = {})
     \<longrightarrow> map s' [1] = id (map ?s [11])"
    by (elim exE conjE) (rule that)
  with val others earlier later have "map s' [1] = id (map ?s [11])"
    by (elim impE) (intro conjI)
  then have "map s' [1] = [7]"
    by simp
  with run show ?thesis
    by (intro exI [of _ s'] conjI)
qed

subsection \<open>C2: a mismatched element type\<close>

text \<open>
  Claim C2: when one element type cannot be assigned into its bound variable, the operator
  is excluded from the candidate set, even if all other elements fit. The code does not
  do that. For two \<^verbatim>\<open>int\<close> variables and a \<^verbatim>\<open>std::tuple<int, std::unique_ptr<int>>\<close>,
  the concept \<^verbatim>\<open>assignable_from\<close> is false for the second pair, and still the constraints
  of the operator are satisfied: the requires-expression only asks whether the call of the
  lambda is well-formed, and does not look at the boolean it returns. The operator is
  selected, and the build is rejected later, inside \<^verbatim>\<open>assign_impl\<close>.
\<close>

theorem mismatched_element_remains_candidate:
  "\<not> assignable_from cpp Int_t Unique_ptr_t \<and>
   operator_assign_requires cpp [Int_t, Int_t]
     (std_tuple [(Const_Lvalue, Int_t, [10]), (Const_Lvalue, Unique_ptr_t, [11])]) =
     Satisfied \<and>
   operator_assign cpp (assign [(Int_t, [0]), (Int_t, [1])])
     (std_tuple [(Const_Lvalue, Int_t, [10]), (Const_Lvalue, Unique_ptr_t, [11])])
     ((\<lambda>_. 0)(10 := 1, 11 := 2)) = Inl Hard_Error"
  by (simp add: run_simps)

subsection \<open>C3: arity mismatch\<close>




subsection \<open>C4: number and order of the element assignments\<close>

text \<open>
  As stated, the claim fails in two ways. For no bound variable and a \<^verbatim>\<open>std::tuple<>\<close>
  all three preconditions hold (there is no index below the count), and the build is
  rejected: the acceptance test asks for \<^verbatim>\<open>std::get<0>\<close>, which meets a static assertion.
  For two variables of type \<^verbatim>\<open>No_comma\<close> all preconditions hold, and the build is rejected
  because the comma between the two assignments is deleted.
\<close>

theorem zero_arity_and_deleted_comma_counterexample:
  "preconditions cpp (assign []) (std_tuple []) \<and>
   operator_assign cpp (assign []) (std_tuple []) (\<lambda>_. 0) = Inl Hard_Error \<and>
   preconditions cpp (assign [(No_comma_t, [0]), (No_comma_t, [1])])
     (std_tuple [(Const_Lvalue, No_comma_t, [10]), (Const_Lvalue, No_comma_t, [11])]) \<and>
   operator_assign cpp (assign [(No_comma_t, [0]), (No_comma_t, [1])])
     (std_tuple [(Const_Lvalue, No_comma_t, [10]), (Const_Lvalue, No_comma_t, [11])])
     ((\<lambda>_. 0)(10 := 1, 11 := 2)) = Inl Hard_Error"
  by (simp add: run_simps pre_simps)

text \<open>
  Claim C4, as amended. When all preconditions hold, \<^verbatim>\<open>std::get<0>\<close> of the value is
  well-formed where the constraints are checked (which the preconditions imply when
  there is a bound variable) and the commas between the assignments are well-formed, the
  assignment operation performs exactly \<open>N\<close> element assignments, one per index, in the
  order \<open>0, ..., N - 1\<close>, whatever the values are and whatever the assignments do; overloaded
  comma operators, if there are any, run after the last assignment.
\<close>

theorem assignments_in_index_order:
  assumes "preconditions L this tup" and "get_in_concept tup 0 = Valid"
    and "commas_valid L (refs this) tup (index_sequence_for (refs this))"
  shows "operator_assign L this tup s =
           Inr (commas L (refs this) tup (index_sequence_for (refs this))
                  (fold (element_assignment L (refs this) tup)
                     [0..<length (refs this)] s), this)"
  using operator_assign_runs [OF assms] by (simp add: index_sequence_for_def)

text \<open>
  Two variables of type \<^verbatim>\<open>Counted\<close>, whose assignment appends the assigned value to a log.
  Variable 0 already holds the value of element 0. The log ends as 12: two assignments,
  index 0 first.
\<close>

theorem assignments_in_index_order_witness:
  "final_values [0, 1, 100]
     (operator_assign cpp (assign [(Counted_t, [0]), (Counted_t, [1])])
        (std_tuple [(Const_Lvalue, Counted_t, [10]), (Const_Lvalue, Counted_t, [11])])
        ((\<lambda>_. 0)(0 := 1, 10 := 1, 11 := 2))) = Inr [1, 2, 12]"
proof -
  let ?h = "assign [(Counted_t, [0]), (Counted_t, [1])]"
  let ?tup = "std_tuple [(Const_Lvalue, Counted_t, [10]), (Const_Lvalue, Counted_t, [11])]"
  let ?s = "(\<lambda>_::addr. 0::int)(0 := 1, 10 := 1, 11 := 2)"
  have pre: "preconditions cpp ?h ?tup"
    by (simp add: run_simps pre_simps)
  have zero: "get_in_concept ?tup 0 = Valid"
    by (simp add: std_tuple_def)
  have cv: "commas_valid cpp (refs ?h) ?tup (index_sequence_for (refs ?h))"
    by (simp add: run_simps pre_simps)
  have "final_values [0, 1, 100]
          (Inr (commas cpp (refs ?h) ?tup (index_sequence_for (refs ?h))
                  (fold (element_assignment cpp (refs ?h) ?tup) [0..<length (refs ?h)] ?s),
                ?h)) = Inr [1, 2, 12]"
    by (simp add: run_simps pre_simps)
  with assignments_in_index_order [OF pre zero cv, of ?s] show ?thesis
    by simp
qed

subsection \<open>C5: reuse of one assigner\<close>

text \<open>
  As stated, the claim fails in four ways.
  \<^item> With \<^verbatim>\<open>auto x = assign(a, b); x = t1; x = std::tie(b, a);\<close> the second assignment
    copies \<^verbatim>\<open>b\<close> into \<^verbatim>\<open>a\<close> and then \<^verbatim>\<open>a\<close> into \<^verbatim>\<open>b\<close>, so both variables end with the second
    element of the first value: 2 after \<open>(1, 2)\<close>, 6 after \<open>(5, 6)\<close>.
  \<^item> A \<^verbatim>\<open>short\<close> variable assigned from a second value holding the \<^verbatim>\<open>int\<close> 70000 ends with
    4464.
  \<^item> With the log and a \<^verbatim>\<open>Counted\<close> variable bound, the log ends with 62, not with the 6
    of the second value.
  \<^item> For two variables of type \<^verbatim>\<open>No_comma\<close> the build is rejected.
\<close>

theorem reassignment_depends_on_first_source_counterexample:
  "final_values [0, 1]
     (assign_twice cpp (assign [(Int_t, [0]), (Int_t, [1])])
        (std_tuple [(Const_Lvalue, Int_t, [10]), (Const_Lvalue, Int_t, [11])])
        (std_tuple [(Lvalue, Int_t, [1]), (Lvalue, Int_t, [0])])
        ((\<lambda>_. 0)(10 := 1, 11 := 2))) = Inr [2, 2] \<and>
   final_values [0, 1]
     (assign_twice cpp (assign [(Int_t, [0]), (Int_t, [1])])
        (std_tuple [(Const_Lvalue, Int_t, [10]), (Const_Lvalue, Int_t, [11])])
        (std_tuple [(Lvalue, Int_t, [1]), (Lvalue, Int_t, [0])])
        ((\<lambda>_. 0)(10 := 5, 11 := 6))) = Inr [6, 6] \<and>
   final_values [0, 12]
     (assign_twice cpp (assign [(Short_t, [0])]) (std_tuple [(Const_Lvalue, Int_t, [10])])
        (std_tuple [(Const_Lvalue, Int_t, [12])])
        ((\<lambda>_. 0)(10 := 1, 12 := 70000))) = Inr [4464, 70000] \<and>
   final_values [100, 12]
     (assign_twice cpp (assign [(Int_t, [100]), (Counted_t, [1])])
        (std_tuple [(Const_Lvalue, Int_t, [10]), (Const_Lvalue, Counted_t, [11])])
        (std_tuple [(Const_Lvalue, Int_t, [12]), (Const_Lvalue, Counted_t, [13])])
        ((\<lambda>_. 0)(10 := 5, 11 := 1, 12 := 6, 13 := 2))) = Inr [62, 6] \<and>
   assign_twice cpp (assign [(No_comma_t, [0]), (No_comma_t, [1])])
     (std_tuple [(Const_Lvalue, No_comma_t, [10]), (Const_Lvalue, No_comma_t, [11])])
     (std_tuple [(Const_Lvalue, No_comma_t, [12]), (Const_Lvalue, No_comma_t, [13])])
     ((\<lambda>_. 0)(10 := 1, 11 := 2, 12 := 3, 13 := 4)) = Inl Hard_Error"
  by (simp add: run_simps)

text \<open>
  Claim C5, as amended. One assigner is assigned from a first value and then from a second
  one, both meeting the preconditions, with built-in commas and with assignments into the
  bound variables that write only their left operand. Then both assignments are accepted,
  and a bound variable that shares no cell with another bound variable, and whose element
  in the second value shares no cell with any bound variable, ends with what the
  assignment between the two types makes of that element as it was before either
  assignment: the outcome depends neither on the first value nor on what the variables
  held before.
\<close>

theorem reassignment_overwrites:
  assumes pre1: "preconditions L this tup1" and pre2: "preconditions L this tup2"
    and cdn1: "commas_do_nothing L this tup1" and cdn2: "commas_do_nothing L this tup2"
    and wol: "\<forall>Var\<in>fst ` set (refs this). writes_only_left L Var"
    and i: "i < length (refs this)"
    and var: "refs this ! i = (Var, dst)" and opd: "std_get tup2 i = Some (cat, Elem, src)"
    and val: "assigns_value L (Var, dst) (cat, Elem, src) f"
    and apart: "\<forall>j<length (refs this). j \<noteq> i \<longrightarrow> set (snd (refs this ! j)) \<inter> set dst = {}"
    and source: "set src \<inter> bound_cells this = {}"
  shows "\<exists>s2. assign_twice L this tup1 tup2 s = Inr (s2, this) \<and> map s2 dst = f (map s src)"
proof -
  let ?n = "length (refs this)"
  let ?s1 = "fold (element_assignment L (refs this) tup1) [0..<?n] s"
  let ?s2 = "fold (element_assignment L (refs this) tup2) [0..<?n] ?s1"
  from pre1 i have zero1: "get_in_concept tup1 0 = Valid"
    by (intro preconditions_zero) auto
  from pre2 i have zero2: "get_in_concept tup2 0 = Valid"
    by (intro preconditions_zero) auto
  from commas_do_nothing_valid [OF cdn1] operator_assign_runs [OF pre1 zero1]
  have first: "operator_assign L this tup1 s = Inr (?s1, this)"
    by (simp add: index_sequence_for_def)
  from commas_do_nothing_valid [OF cdn2] operator_assign_runs [OF pre2 zero2]
  have second: "operator_assign L this tup2 ?s1 = Inr (?s2, this)"
    by (simp add: index_sequence_for_def)
  from first second have twice: "assign_twice L this tup1 tup2 s = Inr (?s2, this)"
    by (simp add: assign_twice_def)
  have wol_nth: "\<forall>j<?n. writes_only_left L (fst (refs this ! j))"
    using wol by auto
  have cells: "set (snd (refs this ! j)) \<subseteq> bound_cells this" if "j < ?n" for j
    using that by (force simp: bound_cells_def)
  have "?s1 a = s a" if "a \<in> set src" for a
  proof (rule fold_frame)
    show "\<forall>j\<in>set [0..<?n]. writes_only_left L (fst (refs this ! j))"
      using wol_nth by simp
    show "\<forall>j\<in>set [0..<?n]. a \<notin> set (snd (refs this ! j))"
    proof
      fix j assume "j \<in> set [0..<?n]"
      then have "set (snd (refs this ! j)) \<subseteq> bound_cells this"
        using cells by simp
      with source that show "a \<notin> set (snd (refs this ! j))"
        by blast
    qed
  qed
  then have unchanged: "map ?s1 src = map s src"
    by simp
  have "map ?s2 dst = f (map ?s1 src)"
  proof (rule fold_value_at [OF i var opd val])
    show "\<forall>j<?n. j \<noteq> i \<longrightarrow> writes_only_left L (fst (refs this ! j))"
      using wol_nth by simp
    show "\<forall>j<i. set (snd (refs this ! j)) \<inter> set src = {}"
      using cells source i by (meson disjoint_iff less_trans subsetD)
    show "\<forall>j. i < j \<and> j < ?n \<longrightarrow> set (snd (refs this ! j)) \<inter> set dst = {}"
      using apart by auto
  qed
  then have "map ?s2 dst = f (map s src)"
    by (simp only: unchanged)
  with twice show ?thesis
    by (intro exI [of _ ?s2] conjI)
qed

theorem reassignment_overwrites_witness:
  "\<exists>s2. assign_twice cpp (assign [(Int_t, [0]), (Int_t, [1])])
        (std_tuple [(Const_Lvalue, Int_t, [10]), (Const_Lvalue, Int_t, [11])])
        (std_tuple [(Const_Lvalue, Int_t, [12]), (Const_Lvalue, Int_t, [13])])
        ((\<lambda>_. 0)(10 := 42, 11 := 5, 12 := 7, 13 := 9)) =
          Inr (s2, assign [(Int_t, [0]), (Int_t, [1])]) \<and>
      map s2 [0] = [7]"
proof -
  let ?h = "assign [(Int_t, [0]), (Int_t, [1])]"
  let ?tup1 = "std_tuple [(Const_Lvalue, Int_t, [10]), (Const_Lvalue, Int_t, [11])]"
  let ?tup2 = "std_tuple [(Const_Lvalue, Int_t, [12]), (Const_Lvalue, Int_t, [13])]"
  let ?s = "(\<lambda>_::addr. 0::int)(10 := 42, 11 := 5, 12 := 7, 13 := 9)"
  have pre1: "preconditions cpp ?h ?tup1" and pre2: "preconditions cpp ?h ?tup2"
    by (simp_all add: run_simps pre_simps)
  have cdn1: "commas_do_nothing cpp ?h ?tup1" and cdn2: "commas_do_nothing cpp ?h ?tup2"
    by (simp_all add: run_simps pre_simps)
  have wol: "\<forall>Var\<in>fst ` set (refs ?h). writes_only_left cpp Var"
    by (simp add: assign_def assign_helper_ctor_def cpp_writes_only_left)
  have i: "0 < length (refs ?h)"
    by (simp add: assign_def assign_helper_ctor_def)
  have var: "refs ?h ! 0 = (Int_t, [0])"
    by (simp add: assign_def assign_helper_ctor_def)
  have opd: "std_get ?tup2 0 = Some (Const_Lvalue, Int_t, [12])"
    by (simp add: std_tuple_def)
  have val: "assigns_value cpp (Int_t, [0]) (Const_Lvalue, Int_t, [12]) id"
    by (simp add: assigns_value_def cpp_def store_values_def)
  have apart: "\<forall>j<length (refs ?h). j \<noteq> 0 \<longrightarrow> set (snd (refs ?h ! j)) \<inter> set [0] = {}"
    by (simp add: assign_def assign_helper_ctor_def less_Suc_eq)
  have source: "set [12] \<inter> bound_cells ?h = {}"
    by (simp add: bound_cells_def assign_def assign_helper_ctor_def)
  from reassignment_overwrites [OF pre1 pre2 cdn1 cdn2 wol i var opd val apart source, of ?s]
  obtain s2 where "assign_twice cpp ?h ?tup1 ?tup2 ?s = Inr (s2, ?h)"
    and "map s2 [0] = id (map ?s [12])"
    by (elim exE conjE) (rule that)
  then show ?thesis
    by (intro exI [of _ s2]) simp
qed

subsection \<open>C6: the returned handle\<close>

text \<open>
  Claim C6. An accepted assignment returns the assigner it was invoked on. A further
  assignment through the returned handle, from a value that the operator accepts, performs
  its element assignments on the originally bound variables: its effect on the memory is
  that of assigning the elements of the further value, in index order, to the variables
  that the assigner was constructed from.
\<close>

theorem returns_same_assigner:
  assumes run: "operator_assign L this tup s = Inr (s', r)"
  shows "r = this \<and>
         (\<forall>tup2. preconditions L this tup2 \<and> get_in_concept tup2 0 = Valid \<and>
                 commas_valid L (refs this) tup2 (index_sequence_for (refs this)) \<longrightarrow>
            operator_assign L r tup2 s' =
              Inr (commas L (refs this) tup2 (index_sequence_for (refs this))
                     (fold (element_assignment L (refs this) tup2)
                        [0..<length (refs this)] s'), this))"
proof -
  have same: "r = this"
    using run by (rule operator_assign_returns_this)
  have "operator_assign L this tup2 s' =
          Inr (commas L (refs this) tup2 (index_sequence_for (refs this))
                 (fold (element_assignment L (refs this) tup2)
                    [0..<length (refs this)] s'), this)"
    if "preconditions L this tup2 \<and> get_in_concept tup2 0 = Valid \<and>
        commas_valid L (refs this) tup2 (index_sequence_for (refs this))" for tup2
    using that operator_assign_runs [of L this tup2 s'] by (simp add: index_sequence_for_def)
  with same show ?thesis by simp
qed

text \<open>After the first assignment the two variables hold \<open>(42, 5)\<close>; after the assignment
  through the returned handle they hold \<open>(7, 9)\<close>.\<close>

theorem returns_same_assigner_witness:
  "\<exists>s' r.
     operator_assign cpp (assign [(Int_t, [0]), (Short_t, [1])])
       (std_tuple [(Const_Lvalue, Int_t, [10]), (Const_Lvalue, Short_t, [11])])
       ((\<lambda>_. 0)(10 := 42, 11 := 5, 12 := 7, 13 := 9)) = Inr (s', r) \<and>
     r = assign [(Int_t, [0]), (Short_t, [1])] \<and>
     final_values [0, 1] (Inr (s', r)) = Inr [42, 5] \<and>
     final_values [0, 1]
       (operator_assign cpp r
          (std_tuple [(Const_Lvalue, Int_t, [12]), (Const_Lvalue, Short_t, [13])]) s') =
       Inr [7, 9]"
proof -
  let ?h = "assign [(Int_t, [0]), (Short_t, [1])]"
  let ?tup = "std_tuple [(Const_Lvalue, Int_t, [10]), (Const_Lvalue, Short_t, [11])]"
  let ?tup2 = "std_tuple [(Const_Lvalue, Int_t, [12]), (Const_Lvalue, Short_t, [13])]"
  let ?s = "(\<lambda>_::addr. 0::int)(10 := 42, 11 := 5, 12 := 7, 13 := 9)"
  let ?s' = "?s(0 := 42, 1 := 5)"
  have run: "operator_assign cpp ?h ?tup ?s = Inr (?s', ?h)"
    by (simp add: run_simps)
  have pre2: "preconditions cpp ?h ?tup2 \<and> get_in_concept ?tup2 0 = Valid \<and>
      commas_valid cpp (refs ?h) ?tup2 (index_sequence_for (refs ?h))"
    by (simp add: run_simps pre_simps)
  note same = returns_same_assigner [OF run]
  from same [THEN conjunct2, THEN spec, of ?tup2] pre2
  have chained: "operator_assign cpp ?h ?tup2 ?s' =
      Inr (commas cpp (refs ?h) ?tup2 (index_sequence_for (refs ?h))
             (fold (element_assignment cpp (refs ?h) ?tup2) [0..<length (refs ?h)] ?s'), ?h)"
    by (rule mp)
  have "final_values [0, 1]
          (Inr (commas cpp (refs ?h) ?tup2 (index_sequence_for (refs ?h))
             (fold (element_assignment cpp (refs ?h) ?tup2) [0..<length (refs ?h)] ?s'), ?h)) =
        Inr [7, 9]"
    by (simp add: run_simps pre_simps)
  with chained have second: "final_values [0, 1] (operator_assign cpp ?h ?tup2 ?s') = Inr [7, 9]"
    by simp
  have first: "final_values [0, 1] (Inr (?s', ?h)) = Inr [42, 5]"
    by (simp add: final_values_def)
  show ?thesis
    by (intro exI [of _ ?s'] exI [of _ ?h] conjI) (rule run refl first second)+
qed

subsection \<open>C7: values that are not tuple-like\<close>




subsection \<open>C8: what the assignment changes\<close>

text \<open>
  As stated, the claim fails in three ways.
  \<^item> After \<^verbatim>\<open>std::tuple<int, int> t(1, 2); assign(std::get<1>(t), std::get<0>(t)) = t;\<close>
    the value \<^verbatim>\<open>t\<close> is \<open>(1, 1)\<close>: the bound variables are elements of the value.
  \<^item> After \<^verbatim>\<open>assign(c) = std::tuple<Counted>(Counted(7))\<close> the log, which is no bound
    variable, has changed from 0 to 7: the assignment of \<^verbatim>\<open>Counted\<close> has a side effect.
  \<^item> After an assignment to two variables of type \<^verbatim>\<open>Loud_comma\<close> the log has changed from
    0 to 1: the comma between the assignments has a side effect.
\<close>

theorem bound_elements_of_source_counterexample:
  "final_values [10, 11]
     (operator_assign cpp (assign [(Int_t, [11]), (Int_t, [10])])
        (std_tuple [(Const_Lvalue, Int_t, [10]), (Const_Lvalue, Int_t, [11])])
        ((\<lambda>_. 0)(10 := 1, 11 := 2))) = Inr [1, 1] \<and>
   map ((\<lambda>_::addr. 0)(10 := 1, 11 := 2)) [10, 11] = [1, 2::int] \<and>
   final_values [100]
     (operator_assign cpp (assign [(Counted_t, [0])])
        (std_tuple [(Const_Lvalue, Counted_t, [10])])
        ((\<lambda>_. 0)(10 := 7))) = Inr [7] \<and>
   final_values [100]
     (operator_assign cpp (assign [(Loud_comma_t, [0]), (Loud_comma_t, [1])])
        (std_tuple [(Const_Lvalue, Loud_comma_t, [10]), (Const_Lvalue, Loud_comma_t, [11])])
        ((\<lambda>_. 0)(10 := 7))) = Inr [1] \<and>
   ((\<lambda>_::addr. 0)(10 := 7)) 100 = (0::int)"
  by (simp add: run_simps)

text \<open>
  Claim C8, as amended. When the assignments into the bound variables' types write only
  their left operand and the commas between the assignments are the built-in ones, an
  accepted assignment changes no cell outside the bound variables. In particular every
  element of the value that shares no cell with a bound variable is left unchanged.
\<close>

theorem only_bound_variables_change:
  assumes run: "operator_assign L this tup s = Inr (s', r)"
    and wol: "\<forall>Var\<in>fst ` set (refs this). writes_only_left L Var"
    and cdn: "commas_do_nothing L this tup"
  shows "(\<forall>a. a \<notin> bound_cells this \<longrightarrow> s' a = s a) \<and>
         (\<forall>i cat Elem src. std_get tup i = Some (cat, Elem, src) \<and>
            set src \<inter> bound_cells this = {} \<longrightarrow> map s' src = map s src)"
proof -
  have frame: "s' a = s a" if "a \<notin> bound_cells this" for a
    using run wol cdn that by (rule operator_assign_frame)
  have "map s' src = map s src" if "set src \<inter> bound_cells this = {}" for src
  proof (rule map_cong [OF refl])
    fix a assume "a \<in> set src"
    with that have "a \<notin> bound_cells this" by blast
    then show "s' a = s a" by (rule frame)
  qed
  then have "\<forall>i cat Elem src. std_get tup i = Some (cat, Elem, src) \<and>
            set src \<inter> bound_cells this = {} \<longrightarrow> map s' src = map s src"
    by blast
  moreover from frame have "\<forall>a. a \<notin> bound_cells this \<longrightarrow> s' a = s a"
    by blast
  ultimately show ?thesis
    by (intro conjI)
qed

theorem only_bound_variables_change_witness:
  "\<exists>s'. operator_assign cpp (assign [(Int_t, [0]), (Int_t, [1])])
        (std_tuple [(Const_Lvalue, Int_t, [10]), (Const_Lvalue, Int_t, [11])])
        ((\<lambda>_. 0)(10 := 42, 11 := 5, 20 := 3)) = Inr (s', assign [(Int_t, [0]), (Int_t, [1])]) \<and>
      s' 10 = 42 \<and> s' 11 = 5 \<and> s' 20 = 3"
proof -
  let ?h = "assign [(Int_t, [0]), (Int_t, [1])]"
  let ?tup = "std_tuple [(Const_Lvalue, Int_t, [10]), (Const_Lvalue, Int_t, [11])]"
  let ?s = "(\<lambda>_::addr. 0::int)(10 := 42, 11 := 5, 20 := 3)"
  obtain s' where run: "operator_assign cpp ?h ?tup ?s = Inr (s', ?h)"
    by (simp add: run_simps)
  have wol: "\<forall>Var\<in>fst ` set (refs ?h). writes_only_left cpp Var"
    by (simp add: assign_def assign_helper_ctor_def cpp_writes_only_left)
  have cdn: "commas_do_nothing cpp ?h ?tup"
    by (simp add: run_simps pre_simps)
  from only_bound_variables_change [OF run wol cdn]
  have "\<forall>a. a \<notin> bound_cells ?h \<longrightarrow> s' a = ?s a"
    by (rule conjunct1)
  then have "s' 10 = 42 \<and> s' 11 = 5 \<and> s' 20 = 3"
    by (simp add: bound_cells_def assign_def assign_helper_ctor_def)
  with run show ?thesis
    by (intro exI [of _ s'] conjI) simp_all
qed

subsection \<open>C9: copy assignment from a const value\<close>

text \<open>
  As stated, the claim fails in three ways.
  \<^item> In \<^verbatim>\<open>assign(a, b) = std::tie(b, a)\<close> with \<^verbatim>\<open>a == 1\<close> and \<^verbatim>\<open>b == 2\<close>, the elements of
    the value are \<open>(2, 1)\<close> before the assignment and \<open>(2, 2)\<close> after it.
  \<^item> \<^verbatim>\<open>std::get\<close> of a \<^verbatim>\<open>std::ranges::subrange\<close> returns by value, so that the assignment is
    from a temporary: a \<^verbatim>\<open>Sink\<close>, which is assignable from an rvalue iterator only and not
    from a const one, is accepted as the first bound variable.
  \<^item> In \<^verbatim>\<open>assign(c, i) = std::tuple<Counted, int&>(Counted(7), log)\<close> the second element
    of the value, the log, changes from 0 to 7, although it is no bound variable.
\<close>

theorem source_aliasing_variables_counterexample:
  "final_values [1, 0]
     (operator_assign cpp (assign [(Int_t, [0]), (Int_t, [1])])
        (std_tuple [(Lvalue, Int_t, [1]), (Lvalue, Int_t, [0])])
        ((\<lambda>_. 0)(0 := 1, 1 := 2))) = Inr [2, 2] \<and>
   map ((\<lambda>_::addr. 0)(0 := 1, 1 := 2)) [1, 0] = [2, 1::int] \<and>
   \<not> assign_valid cpp Sink_t Const_Lvalue Iterator_t \<and>
   final_values [0, 1]
     (operator_assign cpp (assign [(Sink_t, [0]), (Iterator_t, [1])])
        (subrange (Iterator_t, [10]) (Iterator_t, [11]))
        ((\<lambda>_. 0)(10 := 5, 11 := 6))) = Inr [5, 6] \<and>
   final_values [10, 100]
     (operator_assign cpp (assign [(Counted_t, [0]), (Int_t, [1])])
        (std_tuple [(Const_Lvalue, Counted_t, [10]), (Lvalue, Int_t, [100])])
        ((\<lambda>_. 0)(10 := 7))) = Inr [7, 7] \<and>
   map ((\<lambda>_::addr. 0)(10 := 7)) [10, 100] = [7, 0::int]"
  by (simp add: run_simps)

text \<open>
  Claim C9, as amended. The value is taken by const reference, and each element transfer
  is the assignment from what \<^verbatim>\<open>std::get\<close> yields on the const value: an assignment through
  the operator template is accepted only if each of these assignments is well-formed, and
  it performs them in index order. Where \<^verbatim>\<open>std::get\<close> yields a const lvalue, as for the
  elements of object type of a \<^verbatim>\<open>std::tuple\<close>, a \<^verbatim>\<open>std::pair\<close> or a \<^verbatim>\<open>std::array\<close>, the transfer
  is a copy assignment, and an element type that is not copy-assignable from a const
  element into its bound variable (one that is only move-assignable, say) is never
  accepted by the template: the build is rejected, or the template is no candidate.
  Where \<^verbatim>\<open>std::get\<close> returns by value the transfer is an assignment from a temporary.
  After an accepted assignment, when the assignments into the bound variables' types
  write only their left operand and the commas are the built-in ones, every element of
  the value that shares no cell with a bound variable holds what it held before.
\<close>

theorem elements_assigned_from_const_source:
  "(operator_assign_requires L (map fst (refs this)) tup = Satisfied \<and>
    operator_assign L this tup s = Inr (s', r) \<longrightarrow>
      (\<forall>i<length (refs this). element_assignable L (refs this) tup i) \<and>
      s' = commas L (refs this) tup (index_sequence_for (refs this))
             (fold (element_assignment L (refs this) tup) [0..<length (refs this)] s)) \<and>
   ((\<exists>i<length (refs this). \<exists>Elem src. std_get tup i = Some (Const_Lvalue, Elem, src) \<and>
        \<not> assign_valid L (fst (refs this ! i)) Const_Lvalue Elem) \<longrightarrow>
      operator_assign L this tup s = Inl Hard_Error \<or>
      operator_assign L this tup s = implicit_assignment L this tup s) \<and>
   (operator_assign L this tup s = Inr (s', r) \<and>
    (\<forall>Var\<in>fst ` set (refs this). writes_only_left L Var) \<and> commas_do_nothing L this tup \<longrightarrow>
      (\<forall>i cat Elem src. std_get tup i = Some (cat, Elem, src) \<and>
         set src \<inter> bound_cells this = {} \<longrightarrow> map s' src = map s src))"
proof -
  have accepted:
    "(\<forall>i<length (refs this). element_assignable L (refs this) tup i) \<and>
      s' = commas L (refs this) tup (index_sequence_for (refs this))
             (fold (element_assignment L (refs this) tup) [0..<length (refs this)] s)"
    if "operator_assign_requires L (map fst (refs this)) tup = Satisfied \<and>
        operator_assign L this tup s = Inr (s', r)"
  proof -
    from that have req: "operator_assign_requires L (map fst (refs this)) tup = Satisfied"
      and run: "operator_assign L this tup s = Inr (s', r)"
      by simp_all
    from template_accepted(2,4) [OF req run] show ?thesis
      by (simp add: index_sequence_for_def)
  qed
  have rejected: "operator_assign L this tup s = Inl Hard_Error \<or>
      operator_assign L this tup s = implicit_assignment L this tup s"
    if "\<exists>i<length (refs this). \<exists>Elem src. std_get tup i = Some (Const_Lvalue, Elem, src) \<and>
        \<not> assign_valid L (fst (refs this ! i)) Const_Lvalue Elem"
  proof (cases "operator_assign_requires L (map fst (refs this)) tup = Satisfied")
    case False
    then show ?thesis by (rule operator_assign_not_template)
  next
    case True
    from that obtain i Elem src where i: "i < length (refs this)" and
      opd: "std_get tup i = Some (Const_Lvalue, Elem, src)" and
      invalid: "\<not> assign_valid L (fst (refs this ! i)) Const_Lvalue Elem"
      by blast
    have "operator_assign L this tup s = Inl Hard_Error"
    proof (cases "operator_assign L this tup s")
      case (Inl e)
      with True show ?thesis
        by (auto simp: operator_assign_def split: option.splits)
    next
      case (Inr res)
      then obtain s1 r1 where "operator_assign L this tup s = Inr (s1, r1)"
        by (cases res) simp
      from template_accepted(2) [OF True this] i
      have "element_assignable L (refs this) tup i"
        by simp
      with opd invalid show ?thesis
        by (simp add: element_assignable_def)
    qed
    then show ?thesis by simp
  qed
  have unchanged: "\<forall>i cat Elem src. std_get tup i = Some (cat, Elem, src) \<and>
         set src \<inter> bound_cells this = {} \<longrightarrow> map s' src = map s src"
    if "operator_assign L this tup s = Inr (s', r) \<and>
        (\<forall>Var\<in>fst ` set (refs this). writes_only_left L Var) \<and> commas_do_nothing L this tup"
  proof -
    from that have run: "operator_assign L this tup s = Inr (s', r)"
      and wol: "\<forall>Var\<in>fst ` set (refs this). writes_only_left L Var"
      and cdn: "commas_do_nothing L this tup"
      by simp_all
    have "map s' src = map s src" if "set src \<inter> bound_cells this = {}" for src
    proof (rule map_cong [OF refl])
      fix a assume "a \<in> set src"
      with that have "a \<notin> bound_cells this" by blast
      with run wol cdn show "s' a = s a" by (rule operator_assign_frame)
    qed
    then show ?thesis by blast
  qed
  show ?thesis
    by (rule conjI, rule impI, erule accepted, rule conjI, rule impI, erule rejected,
        rule impI, erule unchanged)
qed

text \<open>Two \<^verbatim>\<open>int\<close> variables and a \<^verbatim>\<open>std::tuple<int, int>\<close>; a \<^verbatim>\<open>std::unique_ptr<int>\<close>
  variable and a one-element tuple of \<^verbatim>\<open>std::unique_ptr<int>\<close>.\<close>

theorem elements_assigned_from_const_source_witness:
  "(\<exists>s'. operator_assign cpp (assign [(Int_t, [0]), (Int_t, [1])])
        (std_tuple [(Const_Lvalue, Int_t, [10]), (Const_Lvalue, Int_t, [11])])
        ((\<lambda>_. 0)(10 := 42, 11 := 5)) = Inr (s', assign [(Int_t, [0]), (Int_t, [1])]) \<and>
      map s' [10] = [42]) \<and>
   std_assignable_from cpp Unique_ptr_t Unique_ptr_t \<and>
   operator_assign cpp (assign [(Unique_ptr_t, [0])])
     (std_tuple [(Const_Lvalue, Unique_ptr_t, [10])]) ((\<lambda>_. 0)(10 := 42)) = Inl Hard_Error"
proof -
  let ?h = "assign [(Int_t, [0]), (Int_t, [1])]"
  let ?tup = "std_tuple [(Const_Lvalue, Int_t, [10]), (Const_Lvalue, Int_t, [11])]"
  let ?s = "(\<lambda>_::addr. 0::int)(10 := 42, 11 := 5)"
  obtain s' where run: "operator_assign cpp ?h ?tup ?s = Inr (s', ?h)"
    by (simp add: run_simps)
  have wol: "\<forall>Var\<in>fst ` set (refs ?h). writes_only_left cpp Var"
    by (simp add: assign_def assign_helper_ctor_def cpp_writes_only_left)
  have cdn: "commas_do_nothing cpp ?h ?tup"
    by (simp add: run_simps pre_simps)
  have hyps: "operator_assign cpp ?h ?tup ?s = Inr (s', ?h) \<and>
      (\<forall>Var\<in>fst ` set (refs ?h). writes_only_left cpp Var) \<and> commas_do_nothing cpp ?h ?tup"
    by (intro conjI) (rule run wol cdn)+
  note inst = elements_assigned_from_const_source [of cpp ?h ?tup ?s s' ?h]
  from inst [THEN conjunct2, THEN conjunct2] hyps
  have "\<forall>i cat Elem src. std_get ?tup i = Some (cat, Elem, src) \<and>
         set src \<inter> bound_cells ?h = {} \<longrightarrow> map s' src = map ?s src"
    by (rule mp)
  then have "std_get ?tup 0 = Some (Const_Lvalue, Int_t, [10]) \<and>
         set [10] \<inter> bound_cells ?h = {} \<longrightarrow> map s' [10] = map ?s [10]"
    by blast
  then have first: "map s' [10] = [42]"
    by (simp add: std_tuple_def bound_cells_def assign_def assign_helper_ctor_def)
  let ?u = "assign [(Unique_ptr_t, [0])]"
  let ?utup = "std_tuple [(Const_Lvalue, Unique_ptr_t, [10])]"
  let ?us = "(\<lambda>_::addr. 0::int)(10 := 42)"
  have "(0::nat) < length (refs ?u) \<and> std_get ?utup 0 = Some (Const_Lvalue, Unique_ptr_t, [10]) \<and>
        \<not> assign_valid cpp (fst (refs ?u ! 0)) Const_Lvalue Unique_ptr_t"
    by (simp add: assign_def assign_helper_ctor_def std_tuple_def cpp_def arithmetic_def)
  then have ex: "\<exists>i<length (refs ?u). \<exists>Elem src. std_get ?utup i = Some (Const_Lvalue, Elem, src) \<and>
        \<not> assign_valid cpp (fst (refs ?u ! i)) Const_Lvalue Elem"
    by blast
  note uinst = elements_assigned_from_const_source [of cpp ?u ?utup ?us "?us" ?u]
  from uinst [THEN conjunct2, THEN conjunct1] ex
  have "operator_assign cpp ?u ?utup ?us = Inl Hard_Error \<or>
        operator_assign cpp ?u ?utup ?us = implicit_assignment cpp ?u ?utup ?us"
    by (rule mp)
  then have second: "operator_assign cpp ?u ?utup ?us = Inl Hard_Error"
    by (simp add: run_simps)
  have third: "std_assignable_from cpp Unique_ptr_t Unique_ptr_t"
    by (simp add: cpp_def)
  from run first have "\<exists>s'. operator_assign cpp ?h ?tup ?s = Inr (s', ?h) \<and> map s' [10] = [42]"
    by (intro exI [of _ s'] conjI)
  with third second show ?thesis
    by (intro conjI)
qed

subsection \<open>C10: no bound variables\<close>

text \<open>
  As stated, the claim fails: there are values that the assigner of zero variables
  accepts. A \<^verbatim>\<open>std::array<int, 0>\<close> reports no elements, and \<^verbatim>\<open>std::get<0>\<close> of it is
  well-formed as an unevaluated operand, so that it satisfies the acceptance test; the
  body of the operator then calls no accessor. Another assigner of zero variables is
  accepted through the implicitly declared assignment operator.
\<close>

theorem empty_array_accepted_counterexample:
  "tuple_size (std_array_0 :: cpp_type source) = Some 0 \<and>
   operator_assign cpp (assign []) std_array_0 ((\<lambda>_. 0)(10 := 1)) =
     Inr ((\<lambda>_. 0)(10 := 1), assign []) \<and>
   operator_assign cpp (assign []) (assigner_value (assign [])) ((\<lambda>_. 0)(10 := 1)) =
     Inr ((\<lambda>_. 0)(10 := 1), assign [])"
  by (simp add: run_simps)

text \<open>
  Claim C10, as amended. The factory builds an assigner from zero variables. Its
  assignment operator template accepts exactly the values that report the element count
  0 and for which \<^verbatim>\<open>std::get<0>\<close> is nevertheless well-formed where the constraints are
  checked, such as a \<^verbatim>\<open>std::array<T, 0>\<close>. Every accepted assignment, through the template
  or through an implicitly declared operator, leaves the memory as it was and returns
  the assigner. A value for which \<^verbatim>\<open>std::get<0>\<close> is not well-formed there is rejected,
  although its count may equal the bound arity, unless it converts to the assigner's
  type; for a \<^verbatim>\<open>std::tuple<>\<close> the build ends in a static assertion.
\<close>

theorem zero_arity:
  "refs (assign []) = ([] :: 'ty var_ref list) \<and>
   (operator_assign_requires L [] (tup :: 'ty source) = Satisfied \<longleftrightarrow>
      tuple_size tup = Some 0 \<and> get_in_concept tup 0 = Valid) \<and>
   (operator_assign L (assign []) tup s = Inr (s', r) \<longrightarrow> s' = s \<and> r = assign []) \<and>
   (get_in_concept tup 0 \<noteq> Valid \<and> converts_to_assigner tup [] = None \<longrightarrow>
      (\<exists>e. operator_assign L (assign []) tup s = Inl e)) \<and>
   (tuple_size tup \<noteq> None \<and> get_in_concept tup 0 = Static_Assertion \<longrightarrow>
      operator_assign L (assign []) tup s = Inl Hard_Error)"
proof -
  have empty: "refs (assign []) = ([] :: 'ty var_ref list)"
    by (simp add: assign_def assign_helper_ctor_def)
  have req: "operator_assign_requires L [] tup = Satisfied \<longleftrightarrow>
      tuple_size tup = Some 0 \<and> get_in_concept tup 0 = Valid"
    by (auto simp: operator_assign_requires_def tuple_like_def index_sequence_for_def
             split: option.splits validity.splits)
  have same: "s' = s \<and> r = assign []" if run: "operator_assign L (assign []) tup s = Inr (s', r)"
  proof -
    have "r = assign []"
      using run by (rule operator_assign_returns_this)
    moreover have "s' = s"
    proof (cases "operator_assign_requires L [] tup")
      case Satisfied
      with run show ?thesis
        by (simp add: operator_assign_def empty assign_impl_def index_sequence_for_def)
    next
      case Unsatisfied
      with run show ?thesis
        by (auto simp: operator_assign_def implicit_assignment_def empty
                 split: option.splits if_splits)
    next
      case Ill_Formed
      with run show ?thesis by (simp add: operator_assign_def empty)
    qed
    ultimately show ?thesis by simp
  qed
  have rejected: "\<exists>e. operator_assign L (assign []) tup s = Inl e"
    if "get_in_concept tup 0 \<noteq> Valid \<and> converts_to_assigner tup [] = None"
  proof -
    from that req have "operator_assign_requires L (map fst (refs (assign []))) tup \<noteq> Satisfied"
      by (simp add: empty)
    from operator_assign_not_template [OF this, of s] that show ?thesis
      by (auto simp: implicit_assignment_def empty)
  qed
  have hard: "operator_assign L (assign []) tup s = Inl Hard_Error"
    if "tuple_size tup \<noteq> None \<and> get_in_concept tup 0 = Static_Assertion"
    using that
    by (auto simp: operator_assign_def operator_assign_requires_def tuple_like_def empty)
  show ?thesis
    by (rule conjI, rule empty, rule conjI, rule req, rule conjI, rule impI, erule same,
        rule conjI, rule impI, erule rejected, rule impI, erule hard)
qed

text \<open>The empty \<^verbatim>\<open>std::tuple<>\<close>, and a \<^verbatim>\<open>std::array<int, 0>\<close>.\<close>

theorem zero_arity_witness:
  "operator_assign cpp (assign []) (std_tuple []) ((\<lambda>_. 0)(10 := 1)) = Inl Hard_Error \<and>
   (\<exists>s' r. operator_assign cpp (assign []) std_array_0 ((\<lambda>_. 0)(10 := 1)) = Inr (s', r) \<and>
      s' = (\<lambda>_. 0)(10 := 1) \<and> r = assign [])"
proof -
  let ?s = "(\<lambda>_::addr. 0::int)(10 := 1)"
  let ?tup = "std_tuple [] :: cpp_type source"
  have hyp: "tuple_size ?tup \<noteq> None \<and> get_in_concept ?tup 0 = Static_Assertion"
    by (simp add: std_tuple_def)
  note inst = zero_arity [of cpp ?tup ?s ?s "assign []"]
  from inst [THEN conjunct2, THEN conjunct2, THEN conjunct2, THEN conjunct2] hyp
  have first: "operator_assign cpp (assign []) ?tup ?s = Inl Hard_Error"
    by (rule mp)
  obtain s' r where run: "operator_assign cpp (assign []) std_array_0 ?s = Inr (s', r)"
    by (simp add: run_simps)
  note ainst = zero_arity [of cpp std_array_0 ?s s' r]
  from ainst [THEN conjunct2, THEN conjunct2, THEN conjunct1] run
  have "s' = ?s \<and> r = assign []"
    by (rule mp)
  with run have "\<exists>s' r. operator_assign cpp (assign []) std_array_0 ?s = Inr (s', r) \<and>
      s' = ?s \<and> r = assign []"
    by (intro exI [of _ s'] exI [of _ r] conjI) simp_all
  with first show ?thesis
    by (intro conjI)
qed

end
